theory Spec2Isabelle
  imports Complex_Main "HOL-Library.AList"
begin

section \<open>JavaScript values\<close>

text \<open>
  The sources are JavaScript (strict mode, Node). Values are modelled by one universal type.
  A number is a finite rational (every IEEE double is one, and the only arithmetic the
  sources do on untyped numbers is comparison with the literals 400, 500 and 600), an
  infinity or NaN. An object is the list of the properties a property read can see,
  together with the value it returns when it is called with no argument, when it is a
  function (\<open>Some\<close>); functions are pure and total. Objects are finite trees: no object
  reaches itself through its properties.
\<close>

datatype jsnum = NaN | NegInf | Fin rat | PosInf

datatype jsval =
    JUndefined
  | JNull
  | JBool bool
  | JNum jsnum
  | JStr string
  | JObj "jsval option" "(string \<times> jsval) list"

type_synonym props = "(string \<times> jsval) list"

datatype js_error =
    TypeError string
  | ReferenceError string
  | AssertionError string
  | Thrown jsval

text \<open>
  What the sources take from the JavaScript runtime and from \<open>crypto\<close> is a parameter:
  the conversion of strings and objects to numbers, of objects and fractional numbers to
  strings, \<open>JSON.stringify\<close> (which throws, for instance, on circular data) and the MD5
  digest in hexadecimal.
\<close>

record js_runtime =
  to_number :: "jsval \<Rightarrow> jsnum"
  to_string :: "jsval \<Rightarrow> string"
  json_stringify :: "jsval \<Rightarrow> js_error + jsval"
  md5_hex :: "string \<Rightarrow> string"

fun js_truthy :: "jsval \<Rightarrow> bool" where
  "js_truthy JUndefined = False"
| "js_truthy JNull = False"
| "js_truthy (JBool b) = b"
| "js_truthy (JNum n) = (n \<noteq> NaN \<and> n \<noteq> Fin 0)"
| "js_truthy (JStr s) = (s \<noteq> [])"
| "js_truthy (JObj c ps) = True"

definition js_or :: "jsval \<Rightarrow> jsval \<Rightarrow> jsval" where
  \<comment> \<open>\<open>a || b\<close>\<close>
  "js_or a b = (if js_truthy a then a else b)"

fun js_ToNumber :: "js_runtime \<Rightarrow> jsval \<Rightarrow> jsnum" where
  "js_ToNumber rt JUndefined = NaN"
| "js_ToNumber rt JNull = Fin 0"
| "js_ToNumber rt (JBool b) = Fin (if b then 1 else 0)"
| "js_ToNumber rt (JNum n) = n"
| "js_ToNumber rt v = to_number rt v"

definition js_ge :: "js_runtime \<Rightarrow> jsval \<Rightarrow> rat \<Rightarrow> bool" where
  \<comment> \<open>\<open>v >= c\<close> for a number literal \<open>c\<close>\<close>
  "js_ge rt v c = (case js_ToNumber rt v of Fin q \<Rightarrow> c \<le> q | PosInf \<Rightarrow> True | _ \<Rightarrow> False)"

definition js_lt :: "js_runtime \<Rightarrow> jsval \<Rightarrow> rat \<Rightarrow> bool" where
  \<comment> \<open>\<open>v < c\<close> for a number literal \<open>c\<close>\<close>
  "js_lt rt v c = (case js_ToNumber rt v of Fin q \<Rightarrow> q < c | NegInf \<Rightarrow> True | _ \<Rightarrow> False)"

definition lookup :: "props \<Rightarrow> string \<Rightarrow> jsval" where
  "lookup ps k = (case map_of ps k of Some v \<Rightarrow> v | None \<Rightarrow> JUndefined)"

fun js_get :: "jsval \<Rightarrow> string \<Rightarrow> js_error + jsval" where
  \<comment> \<open>\<open>v[k]\<close>: reading a property of \<open>undefined\<close> or \<open>null\<close> throws; the other
      primitives have none of the properties the sources read\<close>
  "js_get JUndefined k = Inl (TypeError (''Cannot read property '' @ k @ '' of undefined''))"
| "js_get JNull k = Inl (TypeError (''Cannot read property '' @ k @ '' of null''))"
| "js_get (JObj c ps) k = Inr (lookup ps k)"
| "js_get v k = Inr JUndefined"

fun js_prop :: "jsval \<Rightarrow> string \<Rightarrow> jsval" where
  \<comment> \<open>\<open>v[k]\<close> where \<open>v\<close> is known to be neither \<open>undefined\<close> nor \<open>null\<close>\<close>
  "js_prop (JObj c ps) k = lookup ps k"
| "js_prop v k = JUndefined"

fun js_set :: "jsval \<Rightarrow> string \<Rightarrow> jsval \<Rightarrow> js_error + jsval" where
  \<comment> \<open>\<open>o[k] = v\<close> in strict mode: only an object takes a property\<close>
  "js_set (JObj c ps) k v = Inr (JObj c (AList.update k v ps))"
| "js_set JUndefined k v = Inl (TypeError (''Cannot set property '' @ k @ '' of undefined''))"
| "js_set JNull k v = Inl (TypeError (''Cannot set property '' @ k @ '' of null''))"
| "js_set p k v = Inl (TypeError (''Cannot create property '' @ k @ '' on a primitive''))"

fun js_delete :: "jsval \<Rightarrow> string \<Rightarrow> jsval" where
  \<comment> \<open>\<open>delete o[k]\<close>\<close>
  "js_delete (JObj c ps) k = JObj c (AList.delete k ps)"
| "js_delete v k = v"

definition obj :: "props \<Rightarrow> jsval" where
  \<comment> \<open>an object literal\<close>
  "obj ps = JObj None ps"

definition num :: "int \<Rightarrow> jsval" where
  "num i = JNum (Fin (of_int i))"

subsection \<open>Conversion to strings\<close>

function dec_of_nat :: "nat \<Rightarrow> string" where
  "dec_of_nat n =
     (if n < 10 then [''0123456789'' ! n]
      else dec_of_nat (n div 10) @ [''0123456789'' ! (n mod 10)])"
  by pat_completeness auto
termination
  by (relation "measure id") auto

declare dec_of_nat.simps [simp del]

definition dec_of_int :: "int \<Rightarrow> string" where
  "dec_of_int i = (if i < 0 then CHR ''-'' # dec_of_nat (nat (- i)) else dec_of_nat (nat i))"

fun js_ToString :: "js_runtime \<Rightarrow> jsval \<Rightarrow> string" where
  \<comment> \<open>the string a value contributes to a concatenation; an integer below \<open>10^21\<close>
      is written in decimal\<close>
  "js_ToString rt JUndefined = ''undefined''"
| "js_ToString rt JNull = ''null''"
| "js_ToString rt (JBool b) = (if b then ''true'' else ''false'')"
| "js_ToString rt (JStr s) = s"
| "js_ToString rt (JNum NaN) = ''NaN''"
| "js_ToString rt (JNum PosInf) = ''Infinity''"
| "js_ToString rt (JNum NegInf) = ''-Infinity''"
| "js_ToString rt (JNum (Fin q)) =
     (if snd (quotient_of q) = 1 \<and> \<bar>fst (quotient_of q)\<bar> < 10 ^ 21
      then dec_of_int (fst (quotient_of q))
      else to_string rt (JNum (Fin q)))"
| "js_ToString rt (JObj c ps) = to_string rt (JObj c ps)"

subsection \<open>parseInt\<close>

text \<open>
  \<open>parseInt(v, 10)\<close> reads the string of \<open>v\<close>: white space, an optional sign, then the
  longest run of decimal digits; with no digit the result is NaN. Strings are ASCII. A
  finite number between \<open>10^-6\<close> and \<open>10^21\<close> in absolute value is written without an
  exponent, so what is read is its integer part.
\<close>

definition is_space :: "char \<Rightarrow> bool" where
  "is_space c = (c \<in> set [CHR 0x09, CHR 0x0A, CHR 0x0B, CHR 0x0C, CHR 0x0D, CHR 0x20])"

definition digit_value :: "char \<Rightarrow> nat option" where
  "digit_value c =
     map_of [(CHR ''0'', 0), (CHR ''1'', 1), (CHR ''2'', 2), (CHR ''3'', 3), (CHR ''4'', 4),
             (CHR ''5'', 5), (CHR ''6'', 6), (CHR ''7'', 7), (CHR ''8'', 8), (CHR ''9'', 9)] c"

definition digits_value :: "string \<Rightarrow> nat" where
  "digits_value ds = foldl (\<lambda>a c. 10 * a + (case digit_value c of Some d \<Rightarrow> d | None \<Rightarrow> 0)) 0 ds"

definition parse_int10 :: "string \<Rightarrow> jsnum" where
  "parse_int10 s =
     (let t = dropWhile is_space s;
          neg = (case t of c # r \<Rightarrow> c = CHR ''-'' | [] \<Rightarrow> False);
          u = (case t of c # r \<Rightarrow> if c = CHR ''-'' \<or> c = CHR ''+'' then r else t | [] \<Rightarrow> []);
          ds = takeWhile (\<lambda>c. digit_value c \<noteq> None) u
      in if ds = [] then NaN
         else Fin (of_int (if neg then - int (digits_value ds) else int (digits_value ds))))"

fun js_parseInt10 :: "js_runtime \<Rightarrow> jsval \<Rightarrow> jsnum" where
  "js_parseInt10 rt (JNum (Fin q)) =
     (if q = 0 \<or> (1 / 1000000 \<le> \<bar>q\<bar> \<and> \<bar>q\<bar> < 10 ^ 21)
      then Fin (of_int (if 0 \<le> q then \<lfloor>q\<rfloor> else \<lceil>q\<rceil>))
      else parse_int10 (to_string rt (JNum (Fin q))))"
| "js_parseInt10 rt v = parse_int10 (js_ToString rt v)"

section \<open>microservice.js\<close>

subsection \<open>The objects of Boom and of hapi's response toolkit\<close>

text \<open>
  \<open>new Boom(err, {statusCode})\<close> wraps \<open>err\<close>. It reads the status code with
  \<open>parseInt(statusCode, 10)\<close> and throws unless the result is a number and at least
  400; the \<open>output\<close> of the wrapper carries the number read and an empty header object,
  and \<open>isServer\<close> says whether the number is at least 500. \<open>Boom.notFound()\<close> is the
  wrapper with status 404. Of the toolkit's response the record keeps what
  \<open>replyHandler\<close> does to it: the value passed to \<open>response\<close>, to \<open>type\<close>, to
  \<open>header\<close> and to \<open>etag\<close>.
\<close>

record boom =
  boom_cause :: jsval
  boom_isServer :: bool
  output_statusCode :: jsval
  output_headers :: props

definition Boom_new :: "js_runtime \<Rightarrow> jsval \<Rightarrow> jsval \<Rightarrow> js_error + boom" where
  "Boom_new rt err statusCode =
     (case js_parseInt10 rt statusCode of
        Fin numberCode \<Rightarrow>
          if 400 \<le> numberCode then
            Inr \<lparr>boom_cause = err, boom_isServer = (500 \<le> numberCode),
                 output_statusCode = JNum (Fin numberCode), output_headers = []\<rparr>
          else Inl (AssertionError ''First argument must be a number (400+)'')
      | _ \<Rightarrow> Inl (AssertionError ''First argument must be a number (400+)''))"

definition Boom_notFound :: boom where
  "Boom_notFound =
     \<lparr>boom_cause = JUndefined, boom_isServer = False, output_statusCode = num 404,
      output_headers = []\<rparr>"

record hapi_response =
  source :: jsval
  content_type :: "string option"
  headers :: props
  etag :: "jsval option"

definition toolkit_response :: "jsval \<Rightarrow> hapi_response" where
  "toolkit_response v = \<lparr>source = v, content_type = None, headers = [], etag = None\<rparr>"

datatype reply = Reply_Boom boom | Reply_Response hapi_response

fun index_props :: "nat \<Rightarrow> string \<Rightarrow> props" where
  "index_props i [] = []"
| "index_props i (c # cs) = (dec_of_nat i, JStr [c]) # index_props (Suc i) cs"

fun Object_assign :: "props \<Rightarrow> jsval \<Rightarrow> props" where
  \<comment> \<open>\<open>Object.assign(target, source)\<close>: the properties of an object, the characters
      of a string, nothing of another primitive\<close>
  "Object_assign tgt (JObj c ps) = foldr (\<lambda>(k, v) t. AList.update k v t) ps tgt"
| "Object_assign tgt (JStr s) = foldr (\<lambda>(k, v) t. AList.update k v t) (index_props 0 s) tgt"
| "Object_assign tgt v = tgt"

subsection \<open>methodOutput\<close>

record method_output =
  mo_data :: jsval
  mo_hash :: jsval

definition methodOutput :: "js_runtime \<Rightarrow> jsval \<Rightarrow> js_error + method_output" where
  "methodOutput rt result =
     (case json_stringify rt result of
        Inl err \<Rightarrow> Inl err
      | Inr data \<Rightarrow>
          Inr \<lparr>mo_data = result,
               mo_hash = (case data of JStr s \<Rightarrow> JStr (md5_hex rt s) | _ \<Rightarrow> JUndefined)\<rparr>)"

subsection \<open>MicroService.replyHandler\<close>

text \<open>
  The success branch evaluates the identifier \<open>responseType\<close>. Neither the function nor
  the module declares it, so it resolves in the global object, here the map
  \<open>globals\<close>, and evaluating it throws a ReferenceError when the global object does
  not define it.
\<close>

definition replyHandler ::
  "js_runtime \<Rightarrow> (string \<rightharpoonup> jsval) \<Rightarrow> jsval \<Rightarrow> jsval \<Rightarrow> jsval \<Rightarrow> js_error + reply" where
  "replyHandler rt globals err data cacheControl =
     (let contentType = ''application/json'' in
      if js_truthy err then
        (let statusCode = num 404;
             code = js_or (js_prop err ''code'') (js_prop err ''statusCode'');
             statusCode =
               (if js_truthy code then
                  if js_ge rt code 400 \<and> js_lt rt code 500 then code
                  else if js_ge rt code 500 \<and> js_lt rt code 600 then num 503
                  else statusCode
                else statusCode)
         in case Boom_new rt err statusCode of
              Inl e \<Rightarrow> Inl e
            | Inr boomErr \<Rightarrow>
                (let boomErr =
                       (if js_truthy (js_prop err ''headers'')
                        then boomErr\<lparr>output_headers :=
                               Object_assign (output_headers boomErr) (js_prop err ''headers'')\<rparr>
                        else boomErr)
                 in Inr (Reply_Boom boomErr)))
      else if \<not> js_truthy data then Inr (Reply_Boom Boom_notFound)
      else
        (case globals ''responseType'' of
           None \<Rightarrow> Inl (ReferenceError ''responseType is not defined'')
         | Some responseType \<Rightarrow>
             (case methodOutput rt data of
                Inl e \<Rightarrow> Inl e
              | Inr results \<Rightarrow>
                  (let response = toolkit_response (mo_data results);
                       response = response\<lparr>content_type := Some contentType\<rparr>;
                       response = (if js_truthy cacheControl
                                   then response\<lparr>headers :=
                                          AList.update ''cache-control'' cacheControl (headers response)\<rparr>
                                   else response);
                       response = (if js_truthy (mo_hash results)
                                   then response\<lparr>etag := Some (mo_hash results)\<rparr>
                                   else response)
                   in Inr (Reply_Response response)))))"

subsection \<open>MicroService.handleContext\<close>

text \<open>
  \<open>Context\<close> is a class: calling it without \<open>new\<close> throws a TypeError before its
  constructor runs.
\<close>

definition Context_call :: "js_error + jsval" where
  "Context_call = Inl (TypeError ''Class constructor Context cannot be invoked without new'')"

definition handleContext :: "jsval \<Rightarrow> js_error + jsval" where
  "handleContext request0 =
     (let request = (if request0 = JUndefined then obj [] else request0) in
      case js_get request ''headers'' of
        Inl e \<Rightarrow> Inl e
      | Inr hs \<Rightarrow>
          (case js_get hs ''x-request-id'' of
             Inl e \<Rightarrow> Inl e
           | Inr v \<Rightarrow>
               if js_truthy v then Inr (obj [(''x-request-id'', v)])
               else (case Context_call of
                       Inl e \<Rightarrow> Inl e
                     | Inr c \<Rightarrow>
                         (case js_get c ''id'' of
                            Inl e \<Rightarrow> Inl e
                          | Inr i \<Rightarrow> Inr (obj [(''x-request-id'', i)])))))"

section \<open>context.js\<close>

subsection \<open>The log handle and the world\<close>

text \<open>
  A bunyan log handle is known by the fields it binds to each of its records; \<open>child\<close>
  adds fields, which come first: a field of the child overrides the parent's. The sink
  keeps every record a level method was handed, in order; whether bunyan then writes the
  record, given its level, is not modelled. Timers are those of Node: \<open>setTimeout\<close>
  registers a one-shot callback, with a delay outside \<open>1 .. 2^31 - 1\<close> replaced by 1,
  and returns its handle, an object (so truthy); \<open>clearTimeout\<close> removes the callback if
  it is still pending and does nothing otherwise. The only callback this repository
  registers is the one of \<open>logIncomingRequest\<close>, kept as the values it closes over. One
  synchronous call runs at one reading \<open>now\<close> of the clock, in milliseconds.
\<close>

record log_handle =
  bindings :: props

definition child :: "log_handle \<Rightarrow> props \<Rightarrow> log_handle" where
  "child l fs = l\<lparr>bindings := fs @ bindings l\<rparr>"

datatype level = Trace | Info | Warn | Error

record log_record =
  rec_level :: level
  rec_bindings :: props
  rec_data :: jsval
  rec_msg :: string

record pending =
  due :: int
  cb_log :: log_handle
  cb_start :: int
  cb_data :: jsval
  cb_message :: string

record world =
  now :: int
  lag :: string
  sink :: "log_record list"
  timers :: "(nat \<times> pending) list"
  next_timer :: nat

definition emit :: "level \<Rightarrow> log_handle \<Rightarrow> jsval \<Rightarrow> string \<Rightarrow> world \<Rightarrow> world" where
  "emit lv l data msg w =
     w\<lparr>sink := sink w @
        [\<lparr>rec_level = lv, rec_bindings = bindings l, rec_data = data, rec_msg = msg\<rparr>]\<rparr>"

definition timer_delay :: "int \<Rightarrow> int" where
  \<comment> \<open>the delay Node arms a timer with\<close>
  "timer_delay after = (if 1 \<le> after \<and> after \<le> 2147483647 then after else 1)"

definition setTimeout ::
  "log_handle \<Rightarrow> int \<Rightarrow> jsval \<Rightarrow> string \<Rightarrow> int \<Rightarrow> world \<Rightarrow> nat \<times> world" where
  "setTimeout l start data message after w =
     (let delay = timer_delay after;
          h = next_timer w
      in (h, w\<lparr>timers := timers w @
                   [(h, \<lparr>due = now w + delay, cb_log = l, cb_start = start,
                         cb_data = data, cb_message = message\<rparr>)],
               next_timer := Suc h\<rparr>))"

definition clearTimeout :: "nat \<Rightarrow> world \<Rightarrow> world" where
  "clearTimeout h w = w\<lparr>timers := AList.delete h (timers w)\<rparr>"

subsection \<open>Context\<close>

text \<open>
  The constructor's \<open>start\<close> is a number or absent, its \<open>log\<close> (here \<open>parent\<close>) is a
  log handle with a \<open>child\<close> function or anything else (\<open>None\<close>); \<open>uuid\<close> is what
  \<open>uuid.v4()\<close> returns when it is called, \<open>date_now\<close> what \<open>Date.now()\<close> returns.
\<close>

record Context =
  ctx_id :: jsval
  ctx_start :: int
  ctx_log :: "log_handle option"
  ctx_timer :: "nat option"

definition Context_new ::
  "string \<Rightarrow> int \<Rightarrow> jsval \<Rightarrow> int option \<Rightarrow> log_handle option \<Rightarrow> Context" where
  "Context_new uuid date_now id0 start parent =
     \<lparr>ctx_id = js_or id0 (JStr uuid),
      ctx_start = (case start of Some s \<Rightarrow> if s \<noteq> 0 then s else date_now | None \<Rightarrow> date_now),
      ctx_log = (case parent of
                   Some l \<Rightarrow> Some (child l [(''request_id'', id0)])
                 | None \<Rightarrow> None),
      ctx_timer = None\<rparr>"

definition dt :: "Context \<Rightarrow> int \<Rightarrow> int" where
  "dt c date_now = date_now - ctx_start c"

section \<open>logger.js\<close>

subsection \<open>Logger.getFullErrorStack and Logger.serializeError\<close>

text \<open>
  \<open>ex.toString()\<close> is the string of \<open>ex\<close>. The test
  \<open>ex.cause && typeof ex.cause === 'function'\<close> holds exactly of an object that can be
  called, \<open>JObj (Some cex) ps\<close>, and \<open>cex\<close> is what \<open>ex.cause()\<close> returns. \<open>ret += s\<close>
  concatenates the strings of \<open>ret\<close> and of \<open>s\<close>.
\<close>

function getFullErrorStack :: "js_runtime \<Rightarrow> jsval \<Rightarrow> js_error + jsval" where
  "getFullErrorStack rt ex =
     (case js_get ex ''stack'' of
        Inl e \<Rightarrow> Inl e
      | Inr stack \<Rightarrow>
          (let ret = (if js_truthy stack then stack else JStr (js_ToString rt ex)) in
           case js_get ex ''cause'' of
             Inl e \<Rightarrow> Inl e
           | Inr cause \<Rightarrow>
               (case cause of
                  JObj (Some cex) ps \<Rightarrow>
                    if js_truthy cex then
                      (case getFullErrorStack rt cex of
                         Inl e \<Rightarrow> Inl e
                       | Inr full \<Rightarrow>
                           Inr (JStr (js_ToString rt ret @ ''\<newline>Caused by: '' @
                                      js_ToString rt full)))
                    else Inr ret
                | _ \<Rightarrow> Inr ret)))"
  by pat_completeness auto
termination
proof (relation "measure (\<lambda>(rt, ex). size ex)")
  show "wf (measure (\<lambda>(rt, ex). size ex))"
    by simp
next
  fix rt :: js_runtime and ex stack ret cause cex :: jsval and c :: "jsval option" and ps :: props
  assume g: "js_get ex ''cause'' = Inr cause" and f: "cause = JObj c ps" and s: "c = Some cex"
  have mem: "map_of qs k = Some v \<Longrightarrow> size v \<le> size_list (size_prod (\<lambda>x. 0) size) qs"
    for qs :: props and k v
    by (induction qs) (auto split: if_splits)
  from g f s obtain d qs where ex: "ex = JObj d qs" and l: "lookup qs ''cause'' = JObj (Some cex) ps"
    by (cases ex) auto
  from l have "map_of qs ''cause'' = Some (JObj (Some cex) ps)"
    by (auto simp: lookup_def split: option.splits)
  from mem [OF this] have "size cex < size ex"
    by (simp add: ex)
  then show "((rt, cex), (rt, ex)) \<in> measure (\<lambda>(rt, ex). size ex)"
    by simp
qed

declare getFullErrorStack.simps [simp del]

definition serializeError :: "js_runtime \<Rightarrow> jsval \<Rightarrow> js_error + jsval" where
  "serializeError rt err =
     (if \<not> js_truthy err \<or> \<not> js_truthy (js_prop err ''stack'') then Inr err
      else
        (case getFullErrorStack rt err of
           Inl e \<Rightarrow> Inl e
         | Inr full \<Rightarrow>
             Inr (obj [(''message'', js_prop err ''message''),
                       (''name'', js_prop err ''name''),
                       (''stack'', full),
                       (''code'', js_prop err ''code''),
                       (''signal'', js_prop err ''signal''),
                       (''data'', js_prop err ''data'')])))"

subsection \<open>The logger and the request\<close>

text \<open>
  Of the logger the model keeps the bunyan handle, the number \<open>this.log.level()\<close>
  returns and the timeout; \<open>lagAsFixedMillis\<close> returns the string \<open>lag\<close> of the world.
  A request is hapi's: \<open>method\<close> and \<open>path\<close> are strings, \<open>headers\<close> is an object,
  \<open>req_url\<close> is \<open>request.raw.req.url\<close>. The response is any value, since the sources
  tell its three shapes apart by reading its properties. An assignment to a property of
  the response is written back into the request.
\<close>

record Logger =
  lg_log :: log_handle
  lg_level :: int
  unresponsiveTimeout :: int

record request =
  req_method :: string
  req_path :: string
  req_headers :: props
  req_params :: jsval
  req_query :: jsval
  req_state :: jsval
  req_url :: jsval
  req_response :: jsval
  req_context :: "Context option"

fun put :: "jsval \<Rightarrow> string \<Rightarrow> jsval \<Rightarrow> jsval" where
  \<comment> \<open>the object with the property replaced\<close>
  "put (JObj c ps) k v = JObj c (AList.update k v ps)"
| "put x k v = x"

definition log_call ::
  "level \<Rightarrow> Context \<Rightarrow> jsval \<Rightarrow> string \<Rightarrow> request \<Rightarrow> world
     \<Rightarrow> js_error option \<times> request \<times> world" where
  \<comment> \<open>\<open>context.log.<level>(data, message)\<close>\<close>
  "log_call lv context data message request w =
     (case ctx_log context of
        None \<Rightarrow> (Some (TypeError ''Cannot read property of undefined''), request, w)
      | Some l \<Rightarrow> (None, request, emit lv l data message w))"

subsection \<open>Logger.logIncomingRequest\<close>

definition logIncomingRequest ::
  "Logger \<Rightarrow> string \<Rightarrow> request \<Rightarrow> world \<Rightarrow> js_error option \<times> request \<times> world" where
  "logIncomingRequest this uuid request0 w =
     (let context = Context_new uuid (now w) (lookup (req_headers request0) ''x-request-id'')
                      None (Some (lg_log this));
          request = request0\<lparr>req_context := Some context\<rparr>;
          data_request =
            [(''method'', JStr (req_method request)),
             (''headers'', obj (req_headers request)),
             (''params'', req_params request),
             (''path'', JStr (req_path request)),
             (''query'', req_query request),
             (''state'', req_state request),
             (''url'', req_url request),
             (''time'', num (ctx_start context))];
          data_request =
            (if js_truthy (lookup (req_headers request) ''x-forwarded-for'')
             then data_request @ [(''remote'', lookup (req_headers request) ''x-forwarded-for'')]
             else data_request);
          data = obj [(''request'', obj data_request), (''lag'', JStr (lag w))];
          message = req_method request @ '' '' @ req_path request
      in case ctx_log context of
           None \<Rightarrow> (Some (TypeError ''Cannot read property trace of undefined''), request, w)
         | Some l \<Rightarrow>
             (let w = emit Trace l data message w;
                  (h, w) = setTimeout l (ctx_start context) data message (unresponsiveTimeout this) w
              in (None, request\<lparr>req_context := Some (context\<lparr>ctx_timer := Some h\<rparr>)\<rparr>, w)))"

text \<open>
  The event loop, at time \<open>t\<close>: every pending timer that is due is removed and its
  callback runs, \<open>context.log.error(data, message + ' is unresponsive (' + context.dt() + 'ms)')\<close>.
\<close>

definition fire :: "js_runtime \<Rightarrow> pending \<Rightarrow> world \<Rightarrow> world" where
  "fire rt p w =
     emit Error (cb_log p) (cb_data p)
       (cb_message p @ '' is unresponsive ('' @ js_ToString rt (num (now w - cb_start p)) @ ''ms)'') w"

definition run_timers :: "js_runtime \<Rightarrow> int \<Rightarrow> world \<Rightarrow> world" where
  "run_timers rt t w =
     (let w = w\<lparr>now := max (now w) t\<rparr>;
          ready = filter (\<lambda>(h, p). due p \<le> now w) (timers w);
          w = w\<lparr>timers := filter (\<lambda>(h, p). \<not> due p \<le> now w) (timers w)\<rparr>
      in foldl (\<lambda>w (h, p). fire rt p w) w ready)"

subsection \<open>Logger.logOutgoingResponse\<close>

definition outgoing_context :: "Logger \<Rightarrow> string \<Rightarrow> request \<Rightarrow> world \<Rightarrow> Context" where
  \<comment> \<open>\<open>request.context || new Context(request.headers['x-request-id'], null, this.log)\<close>\<close>
  "outgoing_context this uuid request w =
     (case req_context request of
        Some c \<Rightarrow> c
      | None \<Rightarrow> Context_new uuid (now w) (lookup (req_headers request) ''x-request-id'')
                  None (Some (lg_log this)))"

definition outgoing_data ::
  "Logger \<Rightarrow> request \<Rightarrow> Context \<Rightarrow> world \<Rightarrow> props \<Rightarrow> props \<Rightarrow> jsval" where
  \<comment> \<open>the record \<open>data\<close>, given what the branch adds to \<open>data.response\<close> and to \<open>data\<close>\<close>
  "outgoing_data this request context w response_fields extra =
     (let data_request =
            [(''method'', JStr (req_method request)),
             (''path'', JStr (req_path request)),
             (''query'', req_query request),
             (''url'', req_url request),
             (''time'', num (ctx_start context))];
          data_response = [(''time'', num (now w))];
          duration = num (dt context (now w));
          lag_ms = JStr (lag w);
          data_request =
            (if js_truthy (lookup (req_headers request) ''x-forwarded-for'')
             then data_request @ [(''remote'', lookup (req_headers request) ''x-forwarded-for'')]
             else data_request);
          data_request =
            (if lg_level this < 30
             then data_request @
                    [(''headers'', obj (req_headers request)),
                     (''params'', req_params request),
                     (''state'', req_state request)]
             else data_request)
      in obj ([(''request'', obj data_request),
               (''response'', obj (data_response @ response_fields)),
               (''duration'', duration),
               (''lag'', lag_ms)] @ extra))"

definition outgoing_message ::
  "js_runtime \<Rightarrow> request \<Rightarrow> Context \<Rightarrow> world \<Rightarrow> jsval \<Rightarrow> string" where
  \<comment> \<open>\<open>request.method + ' ' + request.path + ' '\<close>, then
      \<open>+= statusCode + ' (' + context.dt() + 'ms)'\<close>\<close>
  "outgoing_message rt request context w statusCode =
     (req_method request @ '' '' @ req_path request @ '' '') @
     (js_ToString rt statusCode @ '' ('' @ js_ToString rt (num (dt context (now w))) @ ''ms)'')"

text \<open>
  The function in two parts: \<open>log_response\<close> is its second half, from the test of
  \<open>response.isBoom\<close> on, given the context, the request and the world its first half
  leaves.
\<close>

definition log_response ::
  "js_runtime \<Rightarrow> Logger \<Rightarrow> Context \<Rightarrow> request \<Rightarrow> world
     \<Rightarrow> js_error option \<times> request \<times> world" where
  "log_response rt this context request w =
     (let response = req_response request;
          data = outgoing_data this request context w;
          message = outgoing_message rt request context w
      in case js_get response ''isBoom'' of
           Inl e \<Rightarrow> (Some e, request, w)
         | Inr isBoom \<Rightarrow>
             if js_truthy isBoom then
               (case js_get (js_prop response ''output'') ''headers'' of
                  Inl e \<Rightarrow> (Some e, request, w)
                | Inr hs0 \<Rightarrow>
                    (case js_set hs0 ''x-request-id'' (ctx_id context) of
                       Inl e \<Rightarrow> (Some e, request, w)
                     | Inr hs \<Rightarrow>
                         (let output = put (js_prop response ''output'') ''headers'' hs;
                              response = put response ''output'' output;
                              request = request\<lparr>req_response := response\<rparr>;
                              response_fields =
                                [(''headers'', js_prop output ''headers''),
                                 (''statusCode'', js_prop output ''statusCode'')]
                          in case serializeError rt response of
                               Inl e \<Rightarrow> (Some e, request, w)
                             | Inr error \<Rightarrow>
                                 if js_truthy (js_prop response ''isServer'') then
                                   log_call Error context
                                     (data response_fields [(''error'', error)])
                                     (message (js_prop output ''statusCode'')) request w
                                 else
                                   (let error = (if js_truthy (js_prop error ''stack'')
                                                 then js_delete error ''stack'' else error)
                                    in log_call Warn context
                                         (data response_fields [(''error'', error)])
                                         (message (js_prop output ''statusCode'')) request w))))
             else if js_truthy (js_prop response ''source'') \<and>
                     js_prop (js_prop response ''source'') ''success'' = JBool False then
               (case js_set (js_prop response ''headers'') ''x-request-id'' (ctx_id context) of
                  Inl e \<Rightarrow> (Some e, request, w)
                | Inr hs \<Rightarrow>
                    (let response = put response ''headers'' hs;
                         request = request\<lparr>req_response := response\<rparr>;
                         response_fields =
                           [(''headers'', js_prop response ''headers''),
                            (''statusCode'', js_prop response ''statusCode'')]
                     in case serializeError rt (js_prop response ''source'') of
                          Inl e \<Rightarrow> (Some e, request, w)
                        | Inr error \<Rightarrow>
                            log_call Error context
                              (data response_fields [(''error'', error)])
                              (message (js_prop response ''statusCode'')) request w))
             else
               (case js_set (js_prop response ''headers'') ''x-request-id'' (ctx_id context) of
                  Inl e \<Rightarrow> (Some e, request, w)
                | Inr hs \<Rightarrow>
                    (let response = put response ''headers'' hs;
                         request = request\<lparr>req_response := response\<rparr>;
                         response_fields =
                           [(''headers'', js_prop response ''headers''),
                            (''statusCode'', js_prop response ''statusCode'')]
                     in log_call Info context (data response_fields [])
                          (message (js_prop response ''statusCode'')) request w)))"

definition logOutgoingResponse ::
  "js_runtime \<Rightarrow> Logger \<Rightarrow> string \<Rightarrow> request \<Rightarrow> world
     \<Rightarrow> js_error option \<times> request \<times> world" where
  "logOutgoingResponse rt this uuid request0 w0 =
     (let context0 = outgoing_context this uuid request0 w0;
          w = (case ctx_timer context0 of Some h \<Rightarrow> clearTimeout h w0 | None \<Rightarrow> w0);
          context = context0\<lparr>ctx_timer := None\<rparr>;
          request = (case req_context request0 of
                       Some c \<Rightarrow> request0\<lparr>req_context := Some context\<rparr>
                     | None \<Rightarrow> request0)
      in log_response rt this context request w)"

section \<open>Notions used to state the properties\<close>

text \<open>
  The chain of causes of an error: \<open>caused_by ex\<close> is the error \<open>ex.cause()\<close> returns,
  when \<open>ex.cause\<close> is a function and what it returns is truthy; \<open>is_chain ex es\<close> says
  that \<open>es\<close> lists \<open>ex\<close>, its cause, the cause of its cause, up to the first error
  without a cause. \<open>join_stacks\<close> follows the words of the specification: the own stack
  text of each error of the chain in order (its string representation if it has no
  stack), joined by the marker.
\<close>

definition caused_by :: "jsval \<Rightarrow> jsval option" where
  "caused_by ex =
     (case js_prop ex ''cause'' of
        JObj (Some cex) ps \<Rightarrow> if js_truthy cex then Some cex else None
      | _ \<Rightarrow> None)"

fun is_chain :: "jsval \<Rightarrow> jsval list \<Rightarrow> bool" where
  "is_chain ex [] = False"
| "is_chain ex [e] = (e = ex \<and> caused_by ex = None)"
| "is_chain ex (e # e' # es) = (e = ex \<and> caused_by ex = Some e' \<and> is_chain e' (e' # es))"

definition own_stack :: "js_runtime \<Rightarrow> jsval \<Rightarrow> jsval" where
  "own_stack rt ex =
     (if js_truthy (js_prop ex ''stack'') then js_prop ex ''stack''
      else JStr (js_ToString rt ex))"

fun join_stacks :: "js_runtime \<Rightarrow> jsval list \<Rightarrow> jsval" where
  "join_stacks rt [] = JUndefined"
| "join_stacks rt [e] = own_stack rt e"
| "join_stacks rt (e # es) =
     JStr (js_ToString rt (own_stack rt e) @ ''\<newline>Caused by: '' @
           js_ToString rt (join_stacks rt es))"


text \<open>
  What the event loop emits: \<open>unresponsive_record rt t p\<close> is the record the callback
  \<open>p\<close> hands the sink when it runs at time \<open>t\<close>, and \<open>fired rt t w\<close> lists, with their
  handles, the records of the timers that run when the loop of the world \<open>w\<close> reaches
  time \<open>t\<close>.
\<close>

definition unresponsive_record :: "js_runtime \<Rightarrow> int \<Rightarrow> pending \<Rightarrow> log_record" where
  "unresponsive_record rt t p =
     \<lparr>rec_level = Error, rec_bindings = bindings (cb_log p), rec_data = cb_data p,
      rec_msg = cb_message p @ '' is unresponsive ('' @
                js_ToString rt (num (t - cb_start p)) @ ''ms)''\<rparr>"

definition fired :: "js_runtime \<Rightarrow> int \<Rightarrow> world \<Rightarrow> (nat \<times> log_record) list" where
  "fired rt t w =
     map (\<lambda>(h, p). (h, unresponsive_record rt (max (now w) t) p))
       (filter (\<lambda>(h, p). due p \<le> max (now w) t) (timers w))"

text \<open>
  A runtime for evaluating the definitions on concrete inputs. Its \<open>JSON.stringify\<close>
  throws on the value it is handed, as the runtime's does on circular data.
\<close>

definition example_runtime :: js_runtime where
  "example_runtime =
     \<lparr>to_number = (\<lambda>v. NaN), to_string = (\<lambda>v. ''[object Object]''),
      json_stringify = (\<lambda>v. Inl (TypeError ''Converting circular structure to JSON'')),
      md5_hex = (\<lambda>s. s)\<rparr>"

text \<open>
  A logger at level info with the default timeout, a world at time 1000 with an empty sink
  and no timer, and the request \<open>GET /health\<close> carrying the request id \<open>abc\<close>, with
  no context attached yet.
\<close>

definition example_logger :: Logger where
  "example_logger =
     \<lparr>lg_log = \<lparr>bindings = [(''name'', JStr ''service'')]\<rparr>, lg_level = 30,
      unresponsiveTimeout = 30000\<rparr>"

definition example_world :: world where
  "example_world = \<lparr>now = 1000, lag = ''0'', sink = [], timers = [], next_timer = 0\<rparr>"

definition example_request :: "jsval \<Rightarrow> request" where
  "example_request response =
     \<lparr>req_method = ''get'', req_path = ''/health'',
      req_headers = [(''x-request-id'', JStr ''abc'')],
      req_params = obj [], req_query = obj [], req_state = obj [],
      req_url = JStr ''/health'', req_response = response, req_context = None\<rparr>"


definition bad_gateway :: jsval where
  \<comment> \<open>a Boom wrapper of class server\<close>
  "bad_gateway =
     obj [(''isBoom'', JBool True), (''isServer'', JBool True),
          (''stack'', JStr ''Error: upstream''), (''message'', JStr ''upstream''),
          (''output'', obj [(''statusCode'', num 503), (''headers'', obj [])])]"

definition rejected :: jsval where
  \<comment> \<open>a response whose source reports a failure\<close>
  "rejected =
     obj [(''statusCode'', num 200), (''headers'', obj []),
          (''source'', obj [(''success'', JBool False), (''message'', JStr ''no stock'')])]"

definition example_context :: Context where
  \<comment> \<open>a context created 600 ms before the time of the world, under its own id\<close>
  "example_context =
     \<lparr>ctx_id = JStr ''ctx-1'', ctx_start = 400,
      ctx_log = Some \<lparr>bindings = [(''request_id'', JStr ''ctx-1'')]\<rparr>, ctx_timer = None\<rparr>"

definition attached_request :: "jsval \<Rightarrow> request" where
  \<comment> \<open>the example request with this context attached\<close>
  "attached_request response = (example_request response)\<lparr>req_context := Some example_context\<rparr>"

definition healthy :: jsval where
  \<comment> \<open>a plain response\<close>
  "healthy =
     obj [(''statusCode'', num 200), (''headers'', obj []),
          (''source'', obj [(''healthy'', JBool True)])]"

section \<open>Properties of microservice.js\<close>








lemma replyHandler_passes_422:
  "\<exists>b. replyHandler rt globals (obj [(''code'', num 422)]) JNull JUndefined = Inr (Reply_Boom b) \<and>
       output_statusCode b = num 422"
  by (simp add: replyHandler_def obj_def num_def js_or_def lookup_def js_ge_def js_lt_def
        Let_def Boom_new_def)

lemma replyHandler_hides_900:
  "\<exists>b. replyHandler rt globals (obj [(''code'', num 900)]) JNull JUndefined = Inr (Reply_Boom b) \<and>
       output_statusCode b = num 404"
  by (simp add: replyHandler_def obj_def num_def js_or_def lookup_def js_ge_def js_lt_def
        Let_def Boom_new_def)

lemma parse_int10_examples: "parse_int10 ''4e2'' = Fin 4" "parse_int10 '' 450.7'' = Fin 450" "parse_int10 ''x'' = NaN"
  "parse_int10 ''-12'' = Fin (-12)"
  by (simp_all add: parse_int10_def is_space_def digit_value_def digits_value_def Let_def)

lemma replyHandler_success_ReferenceError:
  "\<not> js_truthy err \<Longrightarrow> js_truthy data \<Longrightarrow> globals ''responseType'' = None \<Longrightarrow>
   replyHandler rt globals err data cacheControl =
     Inl (ReferenceError ''responseType is not defined'')"
  by (simp add: replyHandler_def)

text \<open>
  C2. The claim is that \<open>replyHandler(null, data, toolkit)\<close> returns a success response for
  a truthy \<open>data\<close>. In a process whose global object does not define \<open>responseType\<close> the
  call \<open>replyHandler(null, {a: 1}, toolkit)\<close> throws a ReferenceError instead: the argument
  list of the call of \<open>methodOutput\<close> names the undeclared \<open>responseType\<close>.
\<close>

theorem replyHandler_success_throws:
  "replyHandler example_runtime Map.empty JNull (obj [(''a'', num 1)]) JUndefined =
     Inl (ReferenceError ''responseType is not defined'')"
  by (simp add: replyHandler_def obj_def)

lemma methodOutput_rethrows:
  "json_stringify rt data = Inl e \<Longrightarrow> methodOutput rt data = Inl e"
  by (simp add: methodOutput_def)

text \<open>
  C9. The claim is that \<open>replyHandler\<close> propagates the failure of the serialization. Take
  data on which \<open>JSON.stringify\<close> throws, as it does on circular data: \<open>methodOutput\<close>
  throws that TypeError, but \<open>replyHandler(null, data, toolkit)\<close> throws the ReferenceError
  of the undeclared \<open>responseType\<close> before it calls \<open>methodOutput\<close>. No response is built,
  and the exception the caller sees is not the failure of the serialization.
\<close>

theorem replyHandler_masks_serialization_failure:
  "json_stringify example_runtime (obj [(''self'', JNull)]) =
     Inl (TypeError ''Converting circular structure to JSON'') \<and>
   methodOutput example_runtime (obj [(''self'', JNull)]) =
     Inl (TypeError ''Converting circular structure to JSON'') \<and>
   replyHandler example_runtime Map.empty JNull (obj [(''self'', JNull)]) JUndefined =
     Inl (ReferenceError ''responseType is not defined'')"
  by (simp add: replyHandler_def methodOutput_def obj_def example_runtime_def)

text \<open>
  C10. \<open>handleContext\<close> returns normally exactly when the request (the empty object, when
  the argument is absent) has a \<open>headers\<close> value whose \<open>x-request-id\<close> is truthy, and then
  it returns that header. In every other case it throws a TypeError, also when it is
  called with no argument: it never returns a generated id.
\<close>

theorem handleContext_TypeError:
  "(\<forall>hs v. js_get (if request = JUndefined then obj [] else request) ''headers'' = Inr hs \<longrightarrow>
           js_get hs ''x-request-id'' = Inr v \<longrightarrow> js_truthy v \<longrightarrow>
           handleContext request = Inr (obj [(''x-request-id'', v)])) \<and>
   ((\<nexists>hs v. js_get (if request = JUndefined then obj [] else request) ''headers'' = Inr hs \<and>
            js_get hs ''x-request-id'' = Inr v \<and> js_truthy v) \<longrightarrow>
    (\<exists>m. handleContext request = Inl (TypeError m))) \<and>
   (\<exists>m. handleContext JUndefined = Inl (TypeError m))"
  apply (intro conjI allI impI)
    apply (simp add: handleContext_def Let_def)
   apply (cases "js_get (if request = JUndefined then obj [] else request) ''headers''")
    apply (cases request; simp add: handleContext_def Let_def obj_def)
  subgoal for hs
    apply (cases "js_get hs ''x-request-id''")
     apply (cases hs; simp add: handleContext_def Let_def obj_def Context_call_def)
    apply (auto simp add: handleContext_def Let_def obj_def Context_call_def)
    done
  apply (simp add: handleContext_def Let_def obj_def lookup_def)
  done

theorem handleContext_TypeError_witness:
  "handleContext (obj [(''headers'', obj [(''x-request-id'', JStr ''abc'')])]) =
     Inr (obj [(''x-request-id'', JStr ''abc'')]) \<and>
   (\<exists>m. handleContext (obj [(''headers'', obj [])]) = Inl (TypeError m))"
  using handleContext_TypeError [of "obj [(''headers'', obj [(''x-request-id'', JStr ''abc'')])]"]
        handleContext_TypeError [of "obj [(''headers'', obj [])]"]
  by (simp add: obj_def lookup_def)

section \<open>Properties of context.js\<close>

lemma Context_request_id_truthy:
  "js_truthy id0 \<Longrightarrow>
   map_option (\<lambda>l. lookup (bindings l) ''request_id'')
     (ctx_log (Context_new uuid t id0 start (Some l0))) =
   Some (ctx_id (Context_new uuid t id0 start (Some l0)))"
  by (simp add: Context_new_def js_or_def child_def lookup_def)

text \<open>
  C3. The claim is that the child log handle is tagged with the id of the context, also when
  the id was generated. The constructor tags it with its argument \<open>id\<close>: with an absent
  argument the context's id is the fresh UUID and the tag is \<open>undefined\<close>.
\<close>

theorem Context_request_id_mismatch:
  "ctx_id (Context_new ''110ec58a-a0f2-4ac4-8393-c866d813b8d1'' 1000 JUndefined None
             (Some \<lparr>bindings = []\<rparr>)) = JStr ''110ec58a-a0f2-4ac4-8393-c866d813b8d1'' \<and>
   map_option (\<lambda>l. lookup (bindings l) ''request_id'')
     (ctx_log (Context_new ''110ec58a-a0f2-4ac4-8393-c866d813b8d1'' 1000 JUndefined None
                 (Some \<lparr>bindings = []\<rparr>))) = Some JUndefined"
  by (simp add: Context_new_def js_or_def child_def lookup_def)

section \<open>Properties of Logger.serializeError\<close>

lemma js_get_truthy: "js_truthy v \<Longrightarrow> js_get v k = Inr (js_prop v k)"
  by (cases v) auto

lemma getFullErrorStack_unfold:
  assumes "js_truthy ex"
  shows "getFullErrorStack rt ex =
           (case caused_by ex of
              None \<Rightarrow> Inr (own_stack rt ex)
            | Some cex \<Rightarrow>
                (case getFullErrorStack rt cex of
                   Inl e \<Rightarrow> Inl e
                 | Inr full \<Rightarrow>
                     Inr (JStr (js_ToString rt (own_stack rt ex) @ ''\<newline>Caused by: '' @
                                js_ToString rt full))))"
  using assms
  apply (subst getFullErrorStack.simps)
  apply (auto simp: js_get_truthy caused_by_def own_stack_def Let_def
              split: jsval.splits option.splits sum.splits)
  done

lemma caused_by_truthy: "caused_by ex = Some c \<Longrightarrow> js_truthy c"
  by (auto simp: caused_by_def split: jsval.splits option.splits if_splits)

lemma is_chain_hd: "is_chain ex es \<Longrightarrow> \<exists>tl. es = ex # tl"
  by (induction ex es rule: is_chain.induct) auto

lemma getFullErrorStack_chain:
  "js_truthy ex \<Longrightarrow> is_chain ex es \<Longrightarrow> getFullErrorStack rt ex = Inr (join_stacks rt es)"
proof (induction es arbitrary: ex)
  case Nil
  then show ?case by simp
next
  case (Cons e es)
  show ?case
  proof (cases es)
    case Nil
    with Cons.prems show ?thesis
      by (simp add: getFullErrorStack_unfold)
  next
    case (Cons e' es')
    with Cons.prems have e: "e = ex" and c: "caused_by ex = Some e'" and ch: "is_chain e' es"
      by auto
    from c have "js_truthy e'" by (rule caused_by_truthy)
    from Cons.IH [OF this ch] have "getFullErrorStack rt e' = Inr (join_stacks rt es)" .
    with Cons.prems(1) c e Cons show ?thesis
      by (simp add: getFullErrorStack_unfold)
  qed
qed

lemma size_caused_by: "caused_by ex = Some c \<Longrightarrow> size c < size ex"
proof -
  assume a: "caused_by ex = Some c"
  have mem: "map_of qs k = Some v \<Longrightarrow> size v \<le> size_list (size_prod (\<lambda>x. 0) size) qs"
    for qs :: props and k v
    by (induction qs) (auto split: if_splits)
  from a obtain ps where p: "js_prop ex ''cause'' = JObj (Some c) ps"
    by (auto simp: caused_by_def split: jsval.splits option.splits if_splits)
  then obtain d qs where ex: "ex = JObj d qs" and l: "lookup qs ''cause'' = JObj (Some c) ps"
    by (cases ex) auto
  from l have "map_of qs ''cause'' = Some (JObj (Some c) ps)"
    by (auto simp: lookup_def split: option.splits)
  from mem [OF this] show ?thesis
    by (simp add: ex)
qed

lemma chain_exists: "\<exists>es. is_chain ex es"
proof (induction ex rule: measure_induct_rule [of size])
  case (less ex)
  show ?case
  proof (cases "caused_by ex")
    case None
    then have "is_chain ex [ex]" by simp
    then show ?thesis ..
  next
    case (Some c)
    from less [OF size_caused_by [OF Some]] obtain es where es: "is_chain c es" ..
    from is_chain_hd [OF es] obtain tl where "es = c # tl" ..
    with es Some have "is_chain ex (ex # c # tl)" by simp
    then show ?thesis ..
  qed
qed

lemma getFullErrorStack_total: "js_truthy ex \<Longrightarrow> \<exists>full. getFullErrorStack rt ex = Inr full"
  using chain_exists [of ex] getFullErrorStack_chain by blast

lemma serializeError_total: "\<exists>r. serializeError rt err = Inr r"
proof (cases "\<not> js_truthy err \<or> \<not> js_truthy (js_prop err ''stack'')")
  case True
  then show ?thesis by (auto simp: serializeError_def)
next
  case False
  then have "js_truthy err" by simp
  from getFullErrorStack_total [OF this, of rt] False show ?thesis
    by (auto simp: serializeError_def)
qed

text \<open>
  C4. An error with a (truthy) stack has a chain of causes, and \<open>serializeError\<close> returns
  the record whose \<open>stack\<close> is the stack text of each error of the chain in order, joined
  by the marker \<open>\nCaused by: \<close>, the innermost cause last. For a chain of three
  causes with stacks \<open>s1\<close>, \<open>s2\<close>, \<open>s3\<close> under an error with stack \<open>s0\<close>, the
  \<open>stack\<close> of the record is the four texts in this order, with three markers.
\<close>

theorem serializeError_stack_chain:
  assumes "js_truthy (js_prop err ''stack'')"
  shows "(\<exists>es. is_chain err es) \<and>
         (\<forall>es. is_chain err es \<longrightarrow>
            serializeError rt err =
              Inr (obj [(''message'', js_prop err ''message''),
                        (''name'', js_prop err ''name''),
                        (''stack'', join_stacks rt es),
                        (''code'', js_prop err ''code''),
                        (''signal'', js_prop err ''signal''),
                        (''data'', js_prop err ''data'')])) \<and>
         (\<forall>e1 e2 e3 s0 s1 s2 s3.
            is_chain err [err, e1, e2, e3] \<longrightarrow>
            js_prop err ''stack'' = JStr s0 \<longrightarrow>
            js_prop e1 ''stack'' = JStr s1 \<longrightarrow> s1 \<noteq> [] \<longrightarrow>
            js_prop e2 ''stack'' = JStr s2 \<longrightarrow> s2 \<noteq> [] \<longrightarrow>
            js_prop e3 ''stack'' = JStr s3 \<longrightarrow> s3 \<noteq> [] \<longrightarrow>
            (\<exists>r. serializeError rt err = Inr r \<and>
                 js_prop r ''stack'' =
                   JStr (s0 @ ''\<newline>Caused by: '' @ s1 @ ''\<newline>Caused by: '' @ s2 @
                         ''\<newline>Caused by: '' @ s3)))"
proof -
  from assms have t: "js_truthy err"
    by (cases err) auto
  have a: "serializeError rt err =
             Inr (obj [(''message'', js_prop err ''message''),
                       (''name'', js_prop err ''name''),
                       (''stack'', join_stacks rt es),
                       (''code'', js_prop err ''code''),
                       (''signal'', js_prop err ''signal''),
                       (''data'', js_prop err ''data'')])"
    if "is_chain err es" for es
    using assms t that getFullErrorStack_chain [OF t, of es rt]
    by (simp add: serializeError_def)
  have b: "\<exists>r. serializeError rt err = Inr r \<and>
                 js_prop r ''stack'' =
                   JStr (s0 @ ''\<newline>Caused by: '' @ s1 @ ''\<newline>Caused by: '' @ s2 @
                         ''\<newline>Caused by: '' @ s3)"
    if "is_chain err [err, e1, e2, e3]" "js_prop err ''stack'' = JStr s0"
       "js_prop e1 ''stack'' = JStr s1" "s1 \<noteq> []"
       "js_prop e2 ''stack'' = JStr s2" "s2 \<noteq> []"
       "js_prop e3 ''stack'' = JStr s3" "s3 \<noteq> []"
    for e1 e2 e3 s0 s1 s2 s3
    using a [OF that(1)] that assms
    by (simp add: own_stack_def obj_def lookup_def)
  from a b chain_exists [of err] show ?thesis
    by blast
qed

theorem serializeError_stack_chain_witness:
  "js_truthy (js_prop (obj [(''message'', JStr ''top''), (''stack'', JStr ''Error: top''),
       (''cause'', JObj (Some (obj [(''stack'', JStr ''Error: api''),
          (''cause'', JObj (Some (obj [(''stack'', JStr ''Error: db''),
             (''cause'', JObj (Some (obj [(''stack'', JStr ''Error: disk'')])) [])])) [])])) [])])
     ''stack'') \<and>
   serializeError example_runtime
     (obj [(''message'', JStr ''top''), (''stack'', JStr ''Error: top''),
       (''cause'', JObj (Some (obj [(''stack'', JStr ''Error: api''),
          (''cause'', JObj (Some (obj [(''stack'', JStr ''Error: db''),
             (''cause'', JObj (Some (obj [(''stack'', JStr ''Error: disk'')])) [])])) [])])) [])]) =
     Inr (obj [(''message'', JStr ''top''), (''name'', JUndefined),
               (''stack'', JStr (''Error: top\<newline>Caused by: Error: api'' @
                                 ''\<newline>Caused by: Error: db\<newline>Caused by: Error: disk'')),
               (''code'', JUndefined), (''signal'', JUndefined), (''data'', JUndefined)])"
proof -
  let ?e3 = "obj [(''stack'', JStr ''Error: disk'')]"
  let ?e2 = "obj [(''stack'', JStr ''Error: db''), (''cause'', JObj (Some ?e3) [])]"
  let ?e1 = "obj [(''stack'', JStr ''Error: api''), (''cause'', JObj (Some ?e2) [])]"
  let ?e0 = "obj [(''message'', JStr ''top''), (''stack'', JStr ''Error: top''),
                  (''cause'', JObj (Some ?e1) [])]"
  have s: "js_truthy (js_prop ?e0 ''stack'')"
    by (simp add: obj_def lookup_def)
  have c: "is_chain ?e0 [?e0, ?e1, ?e2, ?e3]"
    by (simp add: obj_def lookup_def caused_by_def)
  from serializeError_stack_chain [OF s, of example_runtime] c
  have "serializeError example_runtime ?e0 =
          Inr (obj [(''message'', js_prop ?e0 ''message''),
                    (''name'', js_prop ?e0 ''name''),
                    (''stack'', join_stacks example_runtime [?e0, ?e1, ?e2, ?e3]),
                    (''code'', js_prop ?e0 ''code''),
                    (''signal'', js_prop ?e0 ''signal''),
                    (''data'', js_prop ?e0 ''data'')])"
    by blast
  then show ?thesis
    using s by (simp add: obj_def lookup_def own_stack_def)
qed

text \<open>
  C5. \<open>serializeError\<close> returns its input unchanged when the input is falsy or its
  \<open>stack\<close> is falsy, in particular when it has no \<open>stack\<close> property. It always returns,
  and a result other than the input is the record of the six fields, built only for a
  truthy input with a truthy stack.
\<close>

theorem serializeError_identity:
  "(\<not> js_truthy err \<or> \<not> js_truthy (js_prop err ''stack'') \<longrightarrow> serializeError rt err = Inr err) \<and>
   (\<forall>c ps. err = JObj c ps \<longrightarrow> map_of ps ''stack'' = None \<longrightarrow> serializeError rt err = Inr err) \<and>
   (\<exists>r. serializeError rt err = Inr r \<and>
        (r \<noteq> err \<longrightarrow>
           js_truthy err \<and> js_truthy (js_prop err ''stack'') \<and>
           (\<exists>full. r = obj [(''message'', js_prop err ''message''),
                            (''name'', js_prop err ''name''),
                            (''stack'', full),
                            (''code'', js_prop err ''code''),
                            (''signal'', js_prop err ''signal''),
                            (''data'', js_prop err ''data'')])))"
proof -
  obtain r where r: "serializeError rt err = Inr r"
    using serializeError_total by blast
  show ?thesis
    using r by (auto simp: serializeError_def lookup_def split: if_splits sum.splits)
qed

theorem serializeError_identity_witness:
  "serializeError example_runtime JNull = Inr JNull \<and>
   serializeError example_runtime (JStr ''timeout'') = Inr (JStr ''timeout'') \<and>
   serializeError example_runtime (obj [(''message'', JStr ''no stack'')]) =
     Inr (obj [(''message'', JStr ''no stack'')])"
  using serializeError_identity [of JNull example_runtime]
        serializeError_identity [of "JStr ''timeout''" example_runtime]
        serializeError_identity [of "obj [(''message'', JStr ''no stack'')]" example_runtime]
  by (simp add: obj_def)

section \<open>Properties of Logger.logOutgoingResponse\<close>

lemma lookup_update: "lookup (AList.update k v ps) k' = (if k' = k then v else lookup ps k')"
  by (simp add: lookup_def update_conv')






lemma log_call_world:
  "log_call lv c d m r w = (e, r', w') \<Longrightarrow>
   r' = r \<and> timers w' = timers w \<and> now w' = now w \<and> next_timer w' = next_timer w \<and>
   (\<exists>rs. sink w' = sink w @ rs \<and> length rs \<le> 1)"
  by (auto simp: log_call_def emit_def split: option.splits)


lemma log_response_world:
  assumes "log_response rt this context request w = (e, request', w')"
  shows "timers w' = timers w \<and> now w' = now w \<and> next_timer w' = next_timer w \<and>
         req_context request' = req_context request \<and>
         (\<exists>rs. sink w' = sink w @ rs \<and> length rs \<le> 1)"
  using assms
  by (auto simp: log_response_def Let_def split: sum.splits if_splits dest!: log_call_world)



lemma prelude_facts:
  "req_response (case req_context request of None \<Rightarrow> request
                 | Some c \<Rightarrow> request\<lparr>req_context := Some x\<rparr>) = req_response request"
  "req_method (case req_context request of None \<Rightarrow> request
                 | Some c \<Rightarrow> request\<lparr>req_context := Some x\<rparr>) = req_method request"
  "req_path (case req_context request of None \<Rightarrow> request
                 | Some c \<Rightarrow> request\<lparr>req_context := Some x\<rparr>) = req_path request"
  "sink (case t of None \<Rightarrow> w | Some h \<Rightarrow> clearTimeout h w) = sink w"
  "now (case t of None \<Rightarrow> w | Some h \<Rightarrow> clearTimeout h w) = now w"
  "next_timer (case t of None \<Rightarrow> w | Some h \<Rightarrow> clearTimeout h w) = next_timer w"
  by (simp_all add: clearTimeout_def split: option.splits)

lemma log_response_stamps:
  assumes "(if js_truthy (js_prop (req_response request) ''isBoom'')
            then js_prop (js_prop (req_response request) ''output'') ''headers''
            else js_prop (req_response request) ''headers'') = JObj hc hps"
  shows "\<exists>e request' w'.
           log_response rt this context request w = (e, request', w') \<and>
           js_prop (req_response request') ''isBoom'' = js_prop (req_response request) ''isBoom'' \<and>
           (if js_truthy (js_prop (req_response request) ''isBoom'')
            then js_prop (js_prop (req_response request') ''output'') ''headers''
            else js_prop (req_response request') ''headers'') =
             JObj hc (AList.update ''x-request-id'' (ctx_id context) hps) \<and>
           (ctx_log context \<noteq> None \<longrightarrow> e = None)"
proof -
  obtain c ps where r: "req_response request = JObj c ps"
    using assms by (cases "req_response request") (auto split: if_splits)
  show ?thesis
  proof (cases "js_truthy (lookup ps ''isBoom'')")
    case True
    with assms obtain oc ops where o: "lookup ps ''output'' = JObj oc ops"
      using r by (cases "lookup ps ''output''") auto
    from True assms r o have h: "lookup ops ''headers'' = JObj hc hps"
      by simp
    obtain err where s: "serializeError rt (JObj c (AList.update ''output'' (JObj oc
        (AList.update ''headers'' (JObj hc (AList.update ''x-request-id'' (ctx_id context) hps))
           ops)) ps)) = Inr err"
      using serializeError_total by blast
    show ?thesis
      using True r o h s
      by (simp add: log_response_def Let_def lookup_update log_call_def split: option.splits)
  next
    case False
    with assms r have h: "lookup ps ''headers'' = JObj hc hps"
      by simp
    obtain err where s: "serializeError rt (lookup ps ''source'') = Inr err"
      using serializeError_total by blast
    show ?thesis
      using False r h s
      by (simp add: log_response_def Let_def lookup_update log_call_def split: option.splits)
  qed
qed

lemma outgoing_context_fields:
  "ctx_start (outgoing_context this uuid request w) =
     (case req_context request of Some c \<Rightarrow> ctx_start c | None \<Rightarrow> now w)"
  "ctx_id (outgoing_context this uuid request w) =
     (case req_context request of
        Some c \<Rightarrow> ctx_id c
      | None \<Rightarrow> if js_truthy (lookup (req_headers request) ''x-request-id'')
                then lookup (req_headers request) ''x-request-id'' else JStr uuid)"
  "(ctx_log (outgoing_context this uuid request w) \<noteq> None) =
     (\<forall>c. req_context request = Some c \<longrightarrow> ctx_log c \<noteq> None)"
  by (simp_all add: outgoing_context_def Context_new_def js_or_def split: option.splits)

lemma logOutgoingResponse_returns:
  assumes hdr: "(if js_truthy (js_prop (req_response request) ''isBoom'')
            then js_prop (js_prop (req_response request) ''output'') ''headers''
            else js_prop (req_response request) ''headers'') = JObj hc hps"
  shows "\<exists>e request' w'.
           logOutgoingResponse rt this uuid request w = (e, request', w') \<and>
           log_response rt this ((outgoing_context this uuid request w)\<lparr>ctx_timer := None\<rparr>)
             (case req_context request of None \<Rightarrow> request
              | Some c \<Rightarrow> request\<lparr>req_context :=
                   Some ((outgoing_context this uuid request w)\<lparr>ctx_timer := None\<rparr>)\<rparr>)
             (case ctx_timer (outgoing_context this uuid request w) of None \<Rightarrow> w
              | Some h \<Rightarrow> clearTimeout h w) = (e, request', w') \<and>
           (if js_truthy (js_prop (req_response request) ''isBoom'')
            then js_prop (js_prop (req_response request') ''output'') ''headers''
            else js_prop (req_response request') ''headers'') =
             JObj hc (AList.update ''x-request-id''
                        (ctx_id (outgoing_context this uuid request w)) hps) \<and>
           ((\<forall>c. req_context request = Some c \<longrightarrow> ctx_log c \<noteq> None) \<longrightarrow> e = None)"
proof -
  let ?ctx = "(outgoing_context this uuid request w)\<lparr>ctx_timer := None\<rparr>"
  let ?req = "case req_context request of None \<Rightarrow> request
              | Some c \<Rightarrow> request\<lparr>req_context := Some ?ctx\<rparr>"
  let ?w = "case ctx_timer (outgoing_context this uuid request w) of None \<Rightarrow> w
            | Some h \<Rightarrow> clearTimeout h w"
  from hdr have "(if js_truthy (js_prop (req_response ?req) ''isBoom'')
            then js_prop (js_prop (req_response ?req) ''output'') ''headers''
            else js_prop (req_response ?req) ''headers'') = JObj hc hps"
    by (simp only: prelude_facts)
  from log_response_stamps [OF this, of rt this ?ctx ?w]
  obtain e request' w' where
    "log_response rt this ?ctx ?req ?w = (e, request', w')"
    "(if js_truthy (js_prop (req_response ?req) ''isBoom'')
      then js_prop (js_prop (req_response request') ''output'') ''headers''
      else js_prop (req_response request') ''headers'') =
       JObj hc (AList.update ''x-request-id'' (ctx_id ?ctx) hps)"
    "ctx_log ?ctx \<noteq> None \<longrightarrow> e = None"
    by blast
  then show ?thesis
    using outgoing_context_fields(3) [of this uuid request w]
    by (auto simp: logOutgoingResponse_def Let_def prelude_facts)
qed



lemma example_requests:
  "req_response (attached_request v) = v" "req_response (example_request v) = v"
  "req_context (attached_request v) = Some example_context"
  "req_context (example_request v) = None"
  "req_method (attached_request v) = ''get''" "req_method (example_request v) = ''get''"
  "req_path (attached_request v) = ''/health''" "req_path (example_request v) = ''/health''"
  "req_headers (attached_request v) = [(''x-request-id'', JStr ''abc'')]"
  "req_headers (example_request v) = [(''x-request-id'', JStr ''abc'')]"
  "ctx_start example_context = 400" "ctx_id example_context = JStr ''ctx-1''"
  "ctx_log example_context \<noteq> None"
  "now example_world = 1000" "sink example_world = []"
  by (simp_all add: attached_request_def example_request_def example_context_def
        example_world_def)


text \<open>
  C7. When the header object of the response exists (\<open>output.headers\<close> of a Boom wrapper,
  \<open>headers\<close> otherwise), \<open>logOutgoingResponse\<close> leaves in it an \<open>x-request-id\<close> equal to
  the id of the context attached to the request, in each branch; when no context is
  attached, to the id a new context takes: the \<open>x-request-id\<close> of the request when that is
  truthy and a fresh UUID otherwise. It returns normally whenever the attached context has
  a log handle.
\<close>

theorem logOutgoingResponse_stamps_request_id:
  assumes hdr: "(if js_truthy (js_prop (req_response request) ''isBoom'')
            then js_prop (js_prop (req_response request) ''output'') ''headers''
            else js_prop (req_response request) ''headers'') = JObj hc hps"
  shows "\<exists>e request' w'.
           logOutgoingResponse rt this uuid request w = (e, request', w') \<and>
           js_prop (if js_truthy (js_prop (req_response request) ''isBoom'')
                    then js_prop (js_prop (req_response request') ''output'') ''headers''
                    else js_prop (req_response request') ''headers'') ''x-request-id'' =
             (case req_context request of
                Some c \<Rightarrow> ctx_id c
              | None \<Rightarrow> if js_truthy (lookup (req_headers request) ''x-request-id'')
                        then lookup (req_headers request) ''x-request-id'' else JStr uuid) \<and>
           ((\<forall>c. req_context request = Some c \<longrightarrow> ctx_log c \<noteq> None) \<longrightarrow> e = None)"
proof -
  from logOutgoingResponse_returns [OF hdr, of rt this uuid w]
  obtain e request' w' where
    "logOutgoingResponse rt this uuid request w = (e, request', w')"
    "(if js_truthy (js_prop (req_response request) ''isBoom'')
      then js_prop (js_prop (req_response request') ''output'') ''headers''
      else js_prop (req_response request') ''headers'') =
       JObj hc (AList.update ''x-request-id''
                  (ctx_id (outgoing_context this uuid request w)) hps)"
    "(\<forall>c. req_context request = Some c \<longrightarrow> ctx_log c \<noteq> None) \<longrightarrow> e = None"
    by blast
  then show ?thesis
    using outgoing_context_fields(2) [of this uuid request w]
    by (auto simp: lookup_update)
qed

theorem logOutgoingResponse_stamps_request_id_witness:
  "(\<exists>request' w'.
      logOutgoingResponse example_runtime example_logger ''u'' (attached_request bad_gateway)
        example_world = (None, request', w') \<and>
      js_prop (js_prop (js_prop (req_response request') ''output'') ''headers'')
        ''x-request-id'' = JStr ''ctx-1'') \<and>
   (\<exists>request' w'.
      logOutgoingResponse example_runtime example_logger ''u'' (attached_request rejected)
        example_world = (None, request', w') \<and>
      js_prop (js_prop (req_response request') ''headers'') ''x-request-id'' = JStr ''ctx-1'') \<and>
   (\<exists>request' w'.
      logOutgoingResponse example_runtime example_logger ''u'' (attached_request healthy)
        example_world = (None, request', w') \<and>
      js_prop (js_prop (req_response request') ''headers'') ''x-request-id'' = JStr ''ctx-1'') \<and>
   (\<exists>request' w'.
      logOutgoingResponse example_runtime example_logger ''u'' (example_request healthy)
        example_world = (None, request', w') \<and>
      js_prop (js_prop (req_response request') ''headers'') ''x-request-id'' = JStr ''abc'') \<and>
   (\<exists>request' w'.
      logOutgoingResponse example_runtime example_logger ''u''
        ((example_request healthy)\<lparr>req_headers := []\<rparr>) example_world =
        (None, request', w') \<and>
      js_prop (js_prop (req_response request') ''headers'') ''x-request-id'' = JStr ''u'')"
proof -
  have a: "\<exists>request' w'.
      logOutgoingResponse example_runtime example_logger ''u'' (attached_request bad_gateway)
        example_world = (None, request', w') \<and>
      js_prop (js_prop (js_prop (req_response request') ''output'') ''headers'')
        ''x-request-id'' = JStr ''ctx-1''"
    using logOutgoingResponse_stamps_request_id
            [where request = "attached_request bad_gateway" and hc = None and hps = "[]"
               and rt = example_runtime and this = example_logger and uuid = "''u''" and w = example_world]
    by (auto simp add: example_requests bad_gateway_def obj_def lookup_def)
  have b: "\<exists>request' w'.
      logOutgoingResponse example_runtime example_logger ''u'' (attached_request rejected)
        example_world = (None, request', w') \<and>
      js_prop (js_prop (req_response request') ''headers'') ''x-request-id'' = JStr ''ctx-1''"
    using logOutgoingResponse_stamps_request_id
            [where request = "attached_request rejected" and hc = None and hps = "[]"
               and rt = example_runtime and this = example_logger and uuid = "''u''" and w = example_world]
    by (auto simp add: example_requests rejected_def obj_def lookup_def)
  have c: "\<exists>request' w'.
      logOutgoingResponse example_runtime example_logger ''u'' (attached_request healthy)
        example_world = (None, request', w') \<and>
      js_prop (js_prop (req_response request') ''headers'') ''x-request-id'' = JStr ''ctx-1''"
    using logOutgoingResponse_stamps_request_id
            [where request = "attached_request healthy" and hc = None and hps = "[]"
               and rt = example_runtime and this = example_logger and uuid = "''u''" and w = example_world]
    by (auto simp add: example_requests healthy_def obj_def lookup_def)
  have d: "\<exists>request' w'.
      logOutgoingResponse example_runtime example_logger ''u'' (example_request healthy)
        example_world = (None, request', w') \<and>
      js_prop (js_prop (req_response request') ''headers'') ''x-request-id'' = JStr ''abc''"
    using logOutgoingResponse_stamps_request_id
            [where request = "example_request healthy" and hc = None and hps = "[]"
               and rt = example_runtime and this = example_logger and uuid = "''u''" and w = example_world]
    by (auto simp add: example_requests healthy_def obj_def lookup_def)
  have e: "\<exists>request' w'.
      logOutgoingResponse example_runtime example_logger ''u''
        ((example_request healthy)\<lparr>req_headers := []\<rparr>) example_world =
        (None, request', w') \<and>
      js_prop (js_prop (req_response request') ''headers'') ''x-request-id'' = JStr ''u''"
    using logOutgoingResponse_stamps_request_id
            [where request = "(example_request healthy)\<lparr>req_headers := []\<rparr>" and hc = None and hps = "[]"
               and rt = example_runtime and this = example_logger and uuid = "''u''" and w = example_world]
    by (auto simp add: example_requests healthy_def obj_def lookup_def)
  from a b c d e show ?thesis
    by (intro conjI)
qed

section \<open>Properties of the unresponsiveness timer\<close>

lemma fire_eq: "fire rt p w = w\<lparr>sink := sink w @ [unresponsive_record rt (now w) p]\<rparr>"
  by (simp add: fire_def emit_def unresponsive_record_def)

lemma foldl_fire:
  "foldl (\<lambda>w (h, p). fire rt p w) w xs =
     w\<lparr>sink := sink w @ map (\<lambda>(h, p). unresponsive_record rt (now w) p) xs\<rparr>"
  by (induction xs arbitrary: w) (auto simp: fire_eq)

lemma run_timers_eq:
  "run_timers rt t w =
     w\<lparr>now := max (now w) t,
       timers := filter (\<lambda>(h, p). \<not> due p \<le> max (now w) t) (timers w),
       sink := sink w @ map snd (fired rt t w)\<rparr>"
  by (simp add: run_timers_def Let_def foldl_fire)
     (simp add: fired_def comp_def case_prod_unfold)

lemma timer_delay_pos: "1 \<le> timer_delay d"
  by (simp add: timer_delay_def)

lemma logIncomingRequest_eq:
  "logIncomingRequest this uuid request w =
     (let context = Context_new uuid (now w) (lookup (req_headers request) ''x-request-id'')
                      None (Some (lg_log this));
          l = child (lg_log this) [(''request_id'', lookup (req_headers request) ''x-request-id'')];
          data = obj [(''request'',
                       obj ([(''method'', JStr (req_method request)),
                             (''headers'', obj (req_headers request)),
                             (''params'', req_params request),
                             (''path'', JStr (req_path request)),
                             (''query'', req_query request),
                             (''state'', req_state request),
                             (''url'', req_url request),
                             (''time'', num (now w))] @
                            (if js_truthy (lookup (req_headers request) ''x-forwarded-for'')
                             then [(''remote'', lookup (req_headers request) ''x-forwarded-for'')]
                             else []))),
                      (''lag'', JStr (lag w))];
          message = req_method request @ '' '' @ req_path request
      in (None,
          request\<lparr>req_context := Some (context\<lparr>ctx_timer := Some (next_timer w)\<rparr>)\<rparr>,
          w\<lparr>sink := sink w @
                 [\<lparr>rec_level = Trace, rec_bindings = bindings l, rec_data = data,
                   rec_msg = message\<rparr>],
            timers := timers w @
                 [(next_timer w,
                   \<lparr>due = now w + timer_delay (unresponsiveTimeout this), cb_log = l,
                    cb_start = now w, cb_data = data, cb_message = message\<rparr>)],
            next_timer := Suc (next_timer w)\<rparr>))"
  by (simp add: logIncomingRequest_def Let_def Context_new_def setTimeout_def emit_def)

lemma logIncomingRequest_arms:
  "\<exists>request1 w1 p.
     logIncomingRequest this uuid request w = (None, request1, w1) \<and>
     timers w1 = timers w @ [(next_timer w, p)] \<and>
     now w1 = now w \<and>
     due p = now w + timer_delay (unresponsiveTimeout this) \<and>
     cb_start p = now w \<and>
     cb_message p = req_method request @ '' '' @ req_path request \<and>
     (\<exists>c. req_context request1 = Some c \<and> ctx_timer c = Some (next_timer w) \<and> ctx_log c \<noteq> None)"
  by (simp add: logIncomingRequest_eq Let_def Context_new_def)


lemma logOutgoingResponse_attached:
  "req_context request = Some c \<Longrightarrow>
   logOutgoingResponse rt this uuid request w =
     log_response rt this (c\<lparr>ctx_timer := None\<rparr>)
       (request\<lparr>req_context := Some (c\<lparr>ctx_timer := None\<rparr>)\<rparr>)
       (case ctx_timer c of Some h \<Rightarrow> clearTimeout h w | None \<Rightarrow> w)"
  by (simp add: logOutgoingResponse_def outgoing_context_def Let_def)

lemma log_response_None_shape:
  assumes "log_response rt this context request w = (None, request', w')"
  shows "(\<exists>hc hps. (if js_truthy (js_prop (req_response request) ''isBoom'')
                     then js_prop (js_prop (req_response request) ''output'') ''headers''
                     else js_prop (req_response request) ''headers'') = JObj hc hps) \<and>
         ctx_log context \<noteq> None"
proof -
  obtain c ps where r: "req_response request = JObj c ps"
    using assms
    by (cases "req_response request") (simp_all add: log_response_def Let_def)
  have l: "ctx_log context \<noteq> None"
    using assms
    by (auto simp: log_response_def Let_def log_call_def
             split: sum.splits if_splits option.splits)
  show ?thesis
  proof (cases "js_truthy (lookup ps ''isBoom'')")
    case True
    have "\<exists>hc hps. js_prop (lookup ps ''output'') ''headers'' = JObj hc hps"
      using assms r True
      by (cases "js_prop (lookup ps ''output'') ''headers''";
          cases "lookup ps ''output''";
          simp add: log_response_def Let_def)
    with True r l show ?thesis by simp
  next
    case False
    have "\<exists>hc hps. lookup ps ''headers'' = JObj hc hps"
      using assms r False
      by (cases "lookup ps ''headers''")
         (simp_all add: log_response_def Let_def split: if_splits)
    with False r l show ?thesis by simp
  qed
qed

lemma req_context_same: "req_context r = v \<Longrightarrow> r\<lparr>req_context := v\<rparr> = r"
  by (cases r) simp

lemma logOutgoingResponse_twice:
  assumes c: "req_context request = Some c" and l: "ctx_log c \<noteq> None"
    and 1: "logOutgoingResponse rt this uuid request w = (e2, request2, w2)"
  shows "\<exists>e3 request3 w3.
           logOutgoingResponse rt this uuid' request2 w2 = (e3, request3, w3) \<and>
           timers w3 = timers w2 \<and> (e2 = None \<longrightarrow> e3 = None)"
proof -
  let ?c = "c\<lparr>ctx_timer := None\<rparr>"
  let ?req = "request\<lparr>req_context := Some ?c\<rparr>"
  let ?w = "case ctx_timer c of Some h \<Rightarrow> clearTimeout h w | None \<Rightarrow> w"
  from 1 c have f: "log_response rt this ?c ?req ?w = (e2, request2, w2)"
    by (simp add: logOutgoingResponse_attached)
  from log_response_world [OF f] have c2: "req_context request2 = Some ?c"
    by simp
  then have s: "logOutgoingResponse rt this uuid' request2 w2 =
                  log_response rt this ?c request2 w2"
    by (simp add: logOutgoingResponse_attached req_context_same)
  obtain e3 request3 w3 where t: "log_response rt this ?c request2 w2 = (e3, request3, w3)"
    by (cases "log_response rt this ?c request2 w2") auto
  from log_response_world [OF t] have tw: "timers w3 = timers w2"
    by simp
  have "e3 = None" if n: "e2 = None"
  proof -
    from f n log_response_None_shape [of rt this ?c ?req ?w request2 w2]
    obtain hc hps where
      "(if js_truthy (js_prop (req_response ?req) ''isBoom'')
        then js_prop (js_prop (req_response ?req) ''output'') ''headers''
        else js_prop (req_response ?req) ''headers'') = JObj hc hps"
      by blast
    from log_response_stamps [OF this, of rt this ?c ?w] f
    have "(if js_truthy (js_prop (req_response request2) ''isBoom'')
           then js_prop (js_prop (req_response request2) ''output'') ''headers''
           else js_prop (req_response request2) ''headers'') =
            JObj hc (AList.update ''x-request-id'' (ctx_id ?c) hps)"
      by auto
    from log_response_stamps [OF this, of rt this ?c w2] t l show ?thesis
      by auto
  qed
  with s t tw show ?thesis
    by simp
qed


lemma filter_handle_fired:
  "filter (\<lambda>x. fst x = h) (fired rt t w) =
     map (\<lambda>(h, p). (h, unresponsive_record rt (max (now w) t) p))
       (filter (\<lambda>(h', p). h' = h \<and> due p \<le> max (now w) t) (timers w))"
  by (simp add: fired_def filter_map comp_def case_prod_unfold conj_commute)

lemma not_pending_not_fired:
  "h \<notin> fst ` set (timers w) \<Longrightarrow> filter (\<lambda>x. fst x = h) (fired rt t w) = []"
  by (force simp: filter_handle_fired filter_empty_conv)

lemma run_timers_sink: "sink (run_timers rt t w) = sink w @ map snd (fired rt t w)"
  by (simp add: run_timers_eq)

lemma logOutgoingResponse_no_timer:
  assumes "req_context request = None"
  shows "timers (snd (snd (logOutgoingResponse rt this uuid request w))) = timers w"
proof -
  let ?c = "Context_new uuid (now w) (lookup (req_headers request) ''x-request-id'') None
              (Some (lg_log this))"
  obtain e request' w' where
    o: "log_response rt this (?c\<lparr>ctx_timer := None\<rparr>) request w = (e, request', w')"
    by (cases "log_response rt this (?c\<lparr>ctx_timer := None\<rparr>) request w") auto
  have "logOutgoingResponse rt this uuid request w =
          log_response rt this (?c\<lparr>ctx_timer := None\<rparr>) request w"
    using assms
    by (simp add: logOutgoingResponse_def outgoing_context_def Let_def Context_new_def)
  with o log_response_world [OF o] show ?thesis
    by simp
qed

text \<open>
  C8. In a world where the next handle is fresh, \<open>logIncomingRequest\<close> returns normally
  and arms one timer, due after the timeout (as Node clamps it, \<open>timer_delay\<close>). What
  the event loop hands the sink is what \<open>fired\<close> lists. With no response, the timer of
  this request fires nothing before it is due, exactly one record
  \<open><method> <path> is unresponsive (<elapsed>ms)\<close> at level error once it is due, and
  nothing afterwards. When \<open>logOutgoingResponse\<close> runs on the request before the timer is
  due, the timer never fires. Running \<open>logOutgoingResponse\<close> a second time, when the timer
  is already cleared, leaves the timers as they are and returns normally if the first run
  did; so does running it on a request with no context, hence no timer.
\<close>

theorem unresponsive_record_once:
  assumes fresh: "next_timer w \<notin> fst ` set (timers w)"
  shows "\<exists>request1 w1 p.
     logIncomingRequest this uuid request w = (None, request1, w1) \<and>
     map_of (timers w1) (next_timer w) = Some p \<and>
     due p = now w + timer_delay (unresponsiveTimeout this) \<and>
     (\<forall>t. sink (run_timers rt t w1) = sink w1 @ map snd (fired rt t w1)) \<and>
     (\<forall>t. t < due p \<longrightarrow> filter (\<lambda>x. fst x = next_timer w) (fired rt t w1) = []) \<and>
     (\<forall>t. due p \<le> t \<longrightarrow>
        (\<exists>r. filter (\<lambda>x. fst x = next_timer w) (fired rt t w1) = [(next_timer w, r)] \<and>
             rec_level r = Error \<and>
             rec_msg r = req_method request @ '' '' @ req_path request @
                         '' is unresponsive ('' @ js_ToString rt (num (t - now w)) @ ''ms)'') \<and>
        (\<forall>t'. filter (\<lambda>x. fst x = next_timer w) (fired rt t' (run_timers rt t w1)) = [])) \<and>
     (\<forall>t1 response uuid2. t1 < due p \<longrightarrow>
        (\<exists>e2 request2 w2.
           logOutgoingResponse rt this uuid2 (request1\<lparr>req_response := response\<rparr>)
             (run_timers rt t1 w1) = (e2, request2, w2) \<and>
           (\<forall>t. sink (run_timers rt t w2) = sink w2 @ map snd (fired rt t w2)) \<and>
           (\<forall>t. filter (\<lambda>x. fst x = next_timer w) (fired rt t w2) = []) \<and>
           (\<exists>e3 request3 w3.
              logOutgoingResponse rt this uuid2 request2 w2 = (e3, request3, w3) \<and>
              timers w3 = timers w2 \<and> (e2 = None \<longrightarrow> e3 = None)))) \<and>
     (\<forall>request0 uuid0 w0. req_context request0 = None \<longrightarrow>
        timers (snd (snd (logOutgoingResponse rt this uuid0 request0 w0))) = timers w0)"
proof -
  let ?h = "next_timer w"
  from logIncomingRequest_arms [of this uuid request w]
  obtain request1 w1 p c where
    inc: "logIncomingRequest this uuid request w = (None, request1, w1)" and
    tm: "timers w1 = timers w @ [(?h, p)]" and
    nw: "now w1 = now w" and
    du: "due p = now w + timer_delay (unresponsiveTimeout this)" and
    st: "cb_start p = now w" and
    ms: "cb_message p = req_method request @ '' '' @ req_path request" and
    cx: "req_context request1 = Some c" "ctx_timer c = Some ?h" "ctx_log c \<noteq> None"
    by blast
  from du timer_delay_pos [of "unresponsiveTimeout this"] have later: "now w < due p"
    by simp
  from fresh have none: "filter (\<lambda>(h', q). h' = ?h \<and> P q) (timers w) = []" for P
    by (force simp: filter_empty_conv)
  from fresh have mp: "map_of (timers w1) ?h = Some p"
    by (simp add: tm map_add_def map_of_eq_None_iff [THEN iffD2])
  have early: "filter (\<lambda>x. fst x = ?h) (fired rt t w1) = []" if "t < due p" for t
    using that later by (simp add: filter_handle_fired tm nw none)
  have late: "\<exists>r. filter (\<lambda>x. fst x = ?h) (fired rt t w1) = [(?h, r)] \<and>
             rec_level r = Error \<and>
             rec_msg r = req_method request @ '' '' @ req_path request @
                         '' is unresponsive ('' @ js_ToString rt (num (t - now w)) @ ''ms)''"
    if "due p \<le> t" for t
    using that later
    by (simp add: filter_handle_fired tm nw none unresponsive_record_def st ms max_def)
  have gone: "filter (\<lambda>x. fst x = ?h) (fired rt t' (run_timers rt t w1)) = []"
    if "due p \<le> t" for t t'
  proof (rule not_pending_not_fired)
    from that later fresh show "?h \<notin> fst ` set (timers (run_timers rt t w1))"
      by (auto simp: run_timers_eq tm nw max_def)
  qed
  have resp: "\<exists>e2 request2 w2.
           logOutgoingResponse rt this uuid2 (request1\<lparr>req_response := response\<rparr>)
             (run_timers rt t1 w1) = (e2, request2, w2) \<and>
           (\<forall>t. sink (run_timers rt t w2) = sink w2 @ map snd (fired rt t w2)) \<and>
           (\<forall>t. filter (\<lambda>x. fst x = ?h) (fired rt t w2) = []) \<and>
           (\<exists>e3 request3 w3.
              logOutgoingResponse rt this uuid2 request2 w2 = (e3, request3, w3) \<and>
              timers w3 = timers w2 \<and> (e2 = None \<longrightarrow> e3 = None))"
    if "t1 < due p" for t1 response uuid2
  proof -
    let ?req = "request1\<lparr>req_response := response\<rparr>"
    let ?W = "run_timers rt t1 w1"
    have rc: "req_context ?req = Some c"
      using cx by simp
    obtain e2 request2 w2 where
      o: "logOutgoingResponse rt this uuid2 ?req ?W = (e2, request2, w2)"
      by (cases "logOutgoingResponse rt this uuid2 ?req ?W") auto
    then have "log_response rt this (c\<lparr>ctx_timer := None\<rparr>)
                 (?req\<lparr>req_context := Some (c\<lparr>ctx_timer := None\<rparr>)\<rparr>)
                 (clearTimeout ?h ?W) = (e2, request2, w2)"
      using rc cx by (simp add: logOutgoingResponse_attached)
    from log_response_world [OF this] have "timers w2 = AList.delete ?h (timers ?W)"
      by (simp add: clearTimeout_def)
    then have "?h \<notin> fst ` set (timers w2)"
      by (simp add: delete_notin_dom)
    then have "filter (\<lambda>x. fst x = ?h) (fired rt t w2) = []" for t
      by (rule not_pending_not_fired)
    with o logOutgoingResponse_twice [OF rc cx(3) o, of uuid2] show ?thesis
      by (simp add: run_timers_sink)
  qed
  from inc mp du early late gone resp show ?thesis
    by (simp add: run_timers_sink logOutgoingResponse_no_timer)
qed


theorem unresponsive_record_once_witness:
  "next_timer example_world \<notin> fst ` set (timers example_world) \<and>
   (\<exists>request1 w1.
      logIncomingRequest example_logger ''u'' (example_request JUndefined) example_world =
        (None, request1, w1) \<and>
      filter (\<lambda>x. fst x = 0) (fired example_runtime 30999 w1) = [] \<and>
      (\<exists>r. filter (\<lambda>x. fst x = 0) (fired example_runtime 31000 w1) = [(0, r)] \<and>
           rec_msg r = ''get /health is unresponsive (30000ms)'') \<and>
      filter (\<lambda>x. fst x = 0)
        (fired example_runtime 90000 (run_timers example_runtime 31000 w1)) = [] \<and>
      filter (\<lambda>x. fst x = 0)
        (fired example_runtime 90000
           (snd (snd (logOutgoingResponse example_runtime example_logger ''u''
                        (request1\<lparr>req_response := healthy\<rparr>)
                        (run_timers example_runtime 1500 w1))))) = [])"
proof -
  let ?w = example_world and ?rt = example_runtime and ?lg = example_logger
  let ?rq = "example_request JUndefined"
  have f: "next_timer ?w \<notin> fst ` set (timers ?w)"
    by (simp add: example_world_def)
  have n: "next_timer ?w = 0" "now ?w = 1000"
    by (simp_all add: example_world_def)
  have d: "timer_delay (unresponsiveTimeout ?lg) = 30000"
    by (simp add: timer_delay_def example_logger_def)
  have m: "js_ToString ?rt (num 30000) = ''30000''"
    by (simp add: num_def dec_of_int_def dec_of_nat.simps)
  have q: "req_method ?rq = ''get''" "req_path ?rq = ''/health''"
    by (simp_all add: example_request_def)
  from unresponsive_record_once [OF f, of ?lg "''u''" ?rq ?rt]
  obtain request1 w1 and p :: pending where
    1: "logIncomingRequest ?lg ''u'' ?rq ?w = (None, request1, w1)" and
    2: "due p = now ?w + timer_delay (unresponsiveTimeout ?lg)" and
    3: "\<forall>t. t < due p \<longrightarrow> filter (\<lambda>x. fst x = next_timer ?w) (fired ?rt t w1) = []" and
    4: "\<forall>t. due p \<le> t \<longrightarrow>
          (\<exists>r. filter (\<lambda>x. fst x = next_timer ?w) (fired ?rt t w1) = [(next_timer ?w, r)] \<and>
               rec_level r = Error \<and>
               rec_msg r = req_method ?rq @ '' '' @ req_path ?rq @
                           '' is unresponsive ('' @ js_ToString ?rt (num (t - now ?w)) @ ''ms)'') \<and>
          (\<forall>t'. filter (\<lambda>x. fst x = next_timer ?w) (fired ?rt t' (run_timers ?rt t w1)) = [])" and
    5: "\<forall>t1 response uuid2. t1 < due p \<longrightarrow>
          (\<exists>e2 request2 w2.
             logOutgoingResponse ?rt ?lg uuid2 (request1\<lparr>req_response := response\<rparr>)
               (run_timers ?rt t1 w1) = (e2, request2, w2) \<and>
             (\<forall>t. sink (run_timers ?rt t w2) = sink w2 @ map snd (fired ?rt t w2)) \<and>
             (\<forall>t. filter (\<lambda>x. fst x = next_timer ?w) (fired ?rt t w2) = []) \<and>
             (\<exists>e3 request3 w3.
                logOutgoingResponse ?rt ?lg uuid2 request2 w2 = (e3, request3, w3) \<and>
                timers w3 = timers w2 \<and> (e2 = None \<longrightarrow> e3 = None)))"
    by (elim exE conjE) (rule that, assumption+)
  have due: "due p = 31000"
    using 2 by (simp add: n d)
  from 3 [rule_format, of 30999]
  have a: "filter (\<lambda>x. fst x = 0) (fired ?rt 30999 w1) = []"
    by (simp add: due n)
  from 4 [rule_format, of 31000]
  have b: "\<exists>r. filter (\<lambda>x. fst x = 0) (fired ?rt 31000 w1) = [(0, r)] \<and>
               rec_msg r = ''get /health is unresponsive (30000ms)''"
    by (simp add: due n q m) blast
  from 4 [rule_format, of 31000]
  have c: "filter (\<lambda>x. fst x = 0) (fired ?rt 90000 (run_timers ?rt 31000 w1)) = []"
    by (simp add: due n)
  from 5 [rule_format, of 1500 "''u''" healthy]
  obtain e2 request2 w2 where
    "logOutgoingResponse ?rt ?lg ''u'' (request1\<lparr>req_response := healthy\<rparr>)
       (run_timers ?rt 1500 w1) = (e2, request2, w2)"
    "\<forall>t. filter (\<lambda>x. fst x = next_timer ?w) (fired ?rt t w2) = []"
    by (auto simp: due)
  then have e: "filter (\<lambda>x. fst x = 0)
        (fired ?rt 90000
           (snd (snd (logOutgoingResponse ?rt ?lg ''u''
                        (request1\<lparr>req_response := healthy\<rparr>)
                        (run_timers ?rt 1500 w1))))) = []"
    by (simp add: n)
  from f 1 a b c e show ?thesis
    by blast
qed

end
